theory Spec2Isabelle
  imports Main "HOL-Library.Word"
begin

section \<open>Control-panel firmware (src/main.cpp): hardware, globals and effects\<close>

text \<open>
  The firmware is one translation unit, \<^verbatim>\<open>src/main.cpp\<close>: six global variables, the
  Arduino entry points \<^verbatim>\<open>setup\<close> and \<^verbatim>\<open>loop\<close>, and the routines they call.  The model keeps
  the globals under their own names and adds what the routines do to the hardware:
  the level last written to each pin, the CPU clock last requested, whether the
  Bluetooth serial channel has been started, the flat file store, and the ordered list
  of calls made on the collaborators (display and touch controller, serial console,
  Bluetooth, sensor bus).

  The pixel primitives of the display library are not modelled: each drawing routine of
  the firmware is one \<open>event\<close> carrying the values of the globals its picture depends on.
\<close>

datatype level = LOW | HIGH

text \<open>\<^verbatim>\<open>digitalWrite(pin, b)\<close> with a \<^verbatim>\<open>bool\<close> argument: \<^verbatim>\<open>true\<close> is 1, that is \<^verbatim>\<open>HIGH\<close>.\<close>

definition level_of :: "bool \<Rightarrow> level" where
  "level_of b = (if b then HIGH else LOW)"

definition PIN_BL :: nat where "PIN_BL = 32"
definition PIN_RELE1 :: nat where "PIN_RELE1 = 33"
definition PIN_RELE2 :: nat where "PIN_RELE2 = 26"

text \<open>Geometry of the two buttons (the \<^verbatim>\<open>const int\<close> globals).\<close>

definition btnY :: int where "btnY = 250"
definition btnH :: int where "btnH = 60"
definition btnW :: int where "btnW = 105"
definition btn1X :: int where "btn1X = 10"
definition btn2X :: int where "btn2X = 125"

type_synonym byte = "8 word"

datatype event =
    SerialBegin nat
  | SerialPrint string
  | BtRegisterCallback
  | BtBegin string
  | BtEnd
  | BtPrint string
  | PinModeOutput nat
  | Delay nat
  | SensorsBegin
  | RequestTemperatures
  | TftInit
  | TftSetRotation nat
  | TftFillScreenBlack
  | TftWriteCommand byte
  | TftPrintln string
  | TftSetTouch "byte list"
  | TftCalibrateTouch
  | DrawInterfazBase bool
  | DrawBotonSistema bool
  | DrawBotonBL
  | DrawVisualReles bool
  | DrawTemperaturas string string
  | DrawBtIndicador bool

record sys =
  sistemaEstado :: bool
  pantallaEncendida :: bool
  btActivo :: bool
  lastRelayMillis :: "32 word"
  lastTempMillis :: "32 word"
  estadoRele :: bool
  pins :: "nat \<Rightarrow> level option"
  cpuMhz :: nat
  btRunning :: bool
  fsMounted :: bool
  files :: "string \<Rightarrow> byte list option"
  trace :: "event list"

text \<open>
  The state when \<^verbatim>\<open>setup\<close> is entered: the globals have the values of their
  initialisers; no pin has been written; the clock, and the files left in the store
  by earlier runs, are whatever the device has.
\<close>

definition power_on :: "nat \<Rightarrow> (string \<Rightarrow> byte list option) \<Rightarrow> sys" where
  "power_on mhz stored =
     \<lparr> sistemaEstado = False, pantallaEncendida = True, btActivo = False,
       lastRelayMillis = 0, lastTempMillis = 0, estadoRele = False,
       pins = (\<lambda>p. None), cpuMhz = mhz, btRunning = False, fsMounted = False,
       files = stored, trace = [] \<rparr>"

text \<open>Statements in sequence: \<open>do_all [f, g, h]\<close> runs \<open>f\<close>, then \<open>g\<close>, then \<open>h\<close>.\<close>

definition do_all :: "('s \<Rightarrow> 's) list \<Rightarrow> 's \<Rightarrow> 's" where
  "do_all fs s = fold (\<lambda>f. f) fs s"

definition emit :: "event \<Rightarrow> sys \<Rightarrow> sys" where
  "emit e s = s\<lparr>trace := trace s @ [e]\<rparr>"

definition println :: "string \<Rightarrow> sys \<Rightarrow> sys" where
  "println txt = emit (SerialPrint (txt @ [CHR 0x0D, CHR 0x0A]))"

definition delay :: "nat \<Rightarrow> sys \<Rightarrow> sys" where
  "delay ms = emit (Delay ms)"

definition pinMode_OUTPUT :: "nat \<Rightarrow> sys \<Rightarrow> sys" where
  "pinMode_OUTPUT p = emit (PinModeOutput p)"

definition digitalWrite :: "nat \<Rightarrow> level \<Rightarrow> sys \<Rightarrow> sys" where
  "digitalWrite p v s = s\<lparr>pins := (pins s)(p := Some v)\<rparr>"

definition setCpuFrequencyMhz :: "nat \<Rightarrow> sys \<Rightarrow> sys" where
  "setCpuFrequencyMhz f s = s\<lparr>cpuMhz := f\<rparr>"

definition SerialBT_begin :: "string \<Rightarrow> sys \<Rightarrow> sys" where
  "SerialBT_begin name s = emit (BtBegin name) (s\<lparr>btRunning := True\<rparr>)"

definition SerialBT_end :: "sys \<Rightarrow> sys" where
  "SerialBT_end s = emit BtEnd (s\<lparr>btRunning := False\<rparr>)"

text \<open>
  The float library the firmware is compiled against: the sentinel
  \<^verbatim>\<open>DEVICE_DISCONNECTED_C\<close> of the sensor library and \<^verbatim>\<open>String(t, 1)\<close>, the Arduino
  conversion of a float to text with one decimal.  Neither is defined in this
  repository, so both are parameters, and the type \<open>'t\<close> of a reading is left open.
  The only operations of the firmware on a reading are the comparison with the sentinel
  and this conversion.
\<close>

record 't floatlib =
  DEVICE_DISCONNECTED_C :: 't
  String1 :: "'t \<Rightarrow> string"

subsection \<open>Drawing routines\<close>

definition dibujarInterfazBase :: "sys \<Rightarrow> sys" where
  "dibujarInterfazBase s = emit (DrawInterfazBase (btActivo s)) s"

definition dibujarBotonSistema :: "bool \<Rightarrow> sys \<Rightarrow> sys" where
  "dibujarBotonSistema estado = emit (DrawBotonSistema estado)"

definition dibujarBotonBL :: "sys \<Rightarrow> sys" where
  "dibujarBotonBL = emit DrawBotonBL"

definition actualizarVisualReles :: "sys \<Rightarrow> sys" where
  "actualizarVisualReles s = emit (DrawVisualReles (estadoRele s)) s"

text \<open>\<open>t1\<close> and \<open>t2\<close> are what \<^verbatim>\<open>sensors.getTempCByIndex\<close> returns for channels 0 and 1.\<close>

definition actualizarTemperaturas :: "'t floatlib \<Rightarrow> 't \<Rightarrow> 't \<Rightarrow> sys \<Rightarrow> sys" where
  "actualizarTemperaturas L t1 t2 =
     emit (DrawTemperaturas
       (if t1 = DEVICE_DISCONNECTED_C L then ''--.- C'' else String1 L t1 @ '' C'')
       (if t2 = DEVICE_DISCONNECTED_C L then ''--.- C'' else String1 L t2 @ '' C''))"

subsection \<open>Status report\<close>

text \<open>The local \<^verbatim>\<open>reporte\<close> of \<^verbatim>\<open>enviarReporteEstado\<close>, built by six concatenations.\<close>

definition reporte :: "'t floatlib \<Rightarrow> 't \<Rightarrow> 't \<Rightarrow> sys \<Rightarrow> string" where
  "reporte L t1 t2 s =
     ''\<newline>--- REPORTE ESP32 ---\<newline>''
     @ (''S1: '' @ (if t1 = DEVICE_DISCONNECTED_C L then ''ERR'' else String1 L t1 @ ''C'') @ '' | '')
     @ (''S2: '' @ (if t2 = DEVICE_DISCONNECTED_C L then ''ERR'' else String1 L t2 @ ''C'') @ ''\<newline>'')
     @ (''Reles: K1='' @ (if estadoRele s then ''ON'' else ''OFF'')
          @ '' K2='' @ (if \<not> estadoRele s then ''ON'' else ''OFF'') @ ''\<newline>'')
     @ (''Tactil: '' @ (if sistemaEstado s then ''ENCENDIDO'' else ''APAGADO'') @ ''\<newline>'')
     @ (''Pantalla: '' @ (if pantallaEncendida s then ''ON'' else ''SLEEP'') @ ''\<newline>'')
     @ ''---------------------\<newline>''"

text \<open>\<open>hasClient\<close> is what \<^verbatim>\<open>SerialBT.hasClient()\<close> returns.\<close>

definition enviarReporteEstado :: "'t floatlib \<Rightarrow> 't \<Rightarrow> 't \<Rightarrow> bool \<Rightarrow> sys \<Rightarrow> sys" where
  "enviarReporteEstado L t1 t2 hasClient s =
     (let r = reporte L t1 t2 s;
          s = emit (SerialPrint r) s
      in if hasClient then emit (BtPrint r) s else s)"

subsection \<open>Bluetooth toggle and power mode\<close>

definition toggleBluetooth :: "sys \<Rightarrow> sys" where
  "toggleBluetooth s =
     (let s = s\<lparr>btActivo := \<not> btActivo s\<rparr>;
          s = (if btActivo s
               then do_all [setCpuFrequencyMhz 240, SerialBT_begin ''ESP32_TFT_TEST'',
                            println ''BT: Visible''] s
               else do_all [SerialBT_end, println ''BT: Apagado''] s)
      in if pantallaEncendida s then emit (DrawBtIndicador (btActivo s)) s else s)"

definition gestionarModoEnergia :: "'t floatlib \<Rightarrow> 't \<Rightarrow> 't \<Rightarrow> bool \<Rightarrow> sys \<Rightarrow> sys" where
  "gestionarModoEnergia L t1 t2 despertar s =
     (if despertar
      then do_all
        [setCpuFrequencyMhz 240,
         emit (TftWriteCommand 0x11),
         delay 120,
         digitalWrite PIN_BL LOW,
         (\<lambda>s. s\<lparr>pantallaEncendida := True\<rparr>),
         dibujarInterfazBase,
         (\<lambda>s. dibujarBotonSistema (sistemaEstado s) s),
         dibujarBotonBL,
         actualizarVisualReles,
         actualizarTemperaturas L t1 t2] s
      else do_all
        [digitalWrite PIN_BL LOW,
         emit (TftWriteCommand 0x10),
         (\<lambda>s. if btActivo s then setCpuFrequencyMhz 160 s else setCpuFrequencyMhz 80 s),
         (\<lambda>s. s\<lparr>pantallaEncendida := False\<rparr>)] s)"

subsection \<open>Touch calibration and its store\<close>

text \<open>
  The flat file store: \<open>files\<close> are the files it holds, \<open>fsMounted\<close> whether
  \<^verbatim>\<open>SPIFFS.begin\<close> succeeded.  On a store that is not mounted no file exists and no
  file can be opened.  Opening for writing creates the file, or empties it.
\<close>

definition SPIFFS_exists :: "string \<Rightarrow> sys \<Rightarrow> bool" where
  "SPIFFS_exists p s = (fsMounted s \<and> files s p \<noteq> None)"

definition SPIFFS_open_r :: "string \<Rightarrow> sys \<Rightarrow> byte list option" where
  "SPIFFS_open_r p s = (if fsMounted s then files s p else None)"

definition SPIFFS_open_w :: "string \<Rightarrow> sys \<Rightarrow> sys option" where
  "SPIFFS_open_w p s = (if fsMounted s then Some (s\<lparr>files := (files s)(p := Some [])\<rparr>) else None)"

text \<open>\<^verbatim>\<open>f.readBytes(buf, n)\<close> delivers at most \<open>n\<close> bytes: the ones the file has.\<close>

definition readBytes :: "byte list \<Rightarrow> nat \<Rightarrow> byte list" where
  "readBytes content n = take n content"

text \<open>
  The locals of \<^verbatim>\<open>touch_calibrate\<close>.  \<^verbatim>\<open>calData\<close> is an array of five 16-bit values, 10
  bytes, and is not initialised; \<^verbatim>\<open>check\<close> is one byte, initialised to 0.  The routine
  reads from the file, and writes to the file, 14 bytes at the address of \<^verbatim>\<open>calData\<close>:
  4 bytes beyond the array.  The model therefore keeps the memory from the address of
  \<^verbatim>\<open>calData\<close> on as a store from offsets to bytes: offsets 0 to 9 are \<^verbatim>\<open>calData\<close>,
  offsets 10 to 13 are the four bytes behind it.  Where \<^verbatim>\<open>check\<close> is kept is not fixed
  by the source: the layout is \<open>Some k\<close> when \<^verbatim>\<open>check\<close> is the byte at offset \<open>10 + k\<close>, and
  \<open>None\<close> when it is kept elsewhere; the second component of a frame is its place then.
  What else the four bytes behind \<^verbatim>\<open>calData\<close> hold, and what overwriting it does, is
  not modelled.
\<close>

type_synonym frame = "(nat \<Rightarrow> byte) \<times> byte"

definition check_of :: "nat option \<Rightarrow> frame \<Rightarrow> byte" where
  "check_of layout fr = (case layout of Some k \<Rightarrow> fst fr (10 + k) | None \<Rightarrow> snd fr)"

definition set_check :: "nat option \<Rightarrow> byte \<Rightarrow> frame \<Rightarrow> frame" where
  "set_check layout v fr =
     (case layout of Some k \<Rightarrow> ((fst fr)(10 + k := v), snd fr) | None \<Rightarrow> (fst fr, v))"

text \<open>Storing bytes at the address of \<^verbatim>\<open>calData\<close>, and reading \<open>n\<close> bytes from there.\<close>

definition store_at_calData :: "byte list \<Rightarrow> frame \<Rightarrow> frame" where
  "store_at_calData bs fr = ((\<lambda>i. if i < length bs then bs ! i else fst fr i), snd fr)"

definition load_at_calData :: "nat \<Rightarrow> frame \<Rightarrow> byte list" where
  "load_at_calData n fr = map (fst fr) [0..<n]"

text \<open>
  \<^verbatim>\<open>touch_calibrate\<close>.  \<open>serialAvailable\<close> is whether \<^verbatim>\<open>Serial.available()\<close> is
  non-zero; \<open>stack\<close> is what the memory from the address of \<^verbatim>\<open>calData\<close> on holds when the
  routine is entered; \<open>layout\<close> says where \<^verbatim>\<open>check\<close> is; \<open>acquired\<close> gives the ten bytes of
  the five values the interactive routine \<^verbatim>\<open>tft.calibrateTouch\<close> stores in \<^verbatim>\<open>calData\<close>.
  \<^verbatim>\<open>tft.setTouch\<close> takes the five values of \<^verbatim>\<open>calData\<close>, its ten bytes.
  \<open>read_calData\<close> is the first part of the routine, the two declarations and the block
  that reads the file: it gives the locals as that block leaves them.
\<close>

definition read_calData :: "(nat \<Rightarrow> byte) \<Rightarrow> nat option \<Rightarrow> sys \<Rightarrow> frame" where
  "read_calData stack layout s =
     (let fr = set_check layout 0 (stack, 0)
      in if SPIFFS_exists ''/TouchCalData'' s
         then (case SPIFFS_open_r ''/TouchCalData'' s of
                 Some content \<Rightarrow>
                   (let got = readBytes content 14;
                        fr = store_at_calData got fr
                    in if length got = 14 then set_check layout 1 fr else fr)
               | None \<Rightarrow> fr)
         else fr)"

definition touch_calibrate ::
  "bool \<Rightarrow> (nat \<Rightarrow> byte) \<Rightarrow> nat option \<Rightarrow> (nat \<Rightarrow> byte) \<Rightarrow> sys \<Rightarrow> sys" where
  "touch_calibrate serialAvailable stack layout acquired s =
     (let fr = read_calData stack layout s
      in if check_of layout fr \<noteq> 0 \<and> \<not> serialAvailable
         then do_all
           [emit (TftSetTouch (load_at_calData 10 fr)),
            println ''Datos de calibracion cargados desde SPIFFS''] s
         else do_all
           [emit TftFillScreenBlack,
            emit (TftPrintln ''Toca las esquinas indicadas para calibrar''),
            emit (TftPrintln ''(Mantente presionado hasta que desaparezca)''),
            emit TftCalibrateTouch,
            (\<lambda>s. case SPIFFS_open_w ''/TouchCalData'' s of
                    Some s \<Rightarrow>
                      println ''Calibracion completa y guardada.''
                        (s\<lparr>files := (files s)(''/TouchCalData'' :=
                             Some (load_at_calData 14
                                     (store_at_calData (map acquired [0..<10]) fr)))\<rparr>)
                  | None \<Rightarrow> s),
            emit TftFillScreenBlack] s)"

subsection \<open>setup\<close>

record 't setup_env =
  spiffs_begin_ok :: bool
  serial_available :: bool
  calData_stack :: "nat \<Rightarrow> byte"
  check_layout :: "nat option"
  calibration_acquired :: "nat \<Rightarrow> byte"
  setup_t1 :: 't
  setup_t2 :: 't

text \<open>\<^verbatim>\<open>setup()\<close>, under the name \<open>setup_fw\<close>.\<close>

definition setup_fw :: "'t floatlib \<Rightarrow> 't setup_env \<Rightarrow> sys \<Rightarrow> sys" where
  "setup_fw L E =
     do_all
       [emit (SerialBegin 115200),
        setCpuFrequencyMhz 240,
        pinMode_OUTPUT PIN_RELE1,
        pinMode_OUTPUT PIN_RELE2,
        digitalWrite PIN_RELE1 LOW,
        digitalWrite PIN_RELE2 HIGH,
        emit SensorsBegin,
        (\<lambda>s. s\<lparr>fsMounted := spiffs_begin_ok E\<rparr>),
        (\<lambda>s. if \<not> spiffs_begin_ok E then println ''Error SPIFFS'' s else s),
        emit TftInit,
        emit (TftSetRotation 0),
        emit TftFillScreenBlack,
        emit BtRegisterCallback,
        touch_calibrate (serial_available E) (calData_stack E) (check_layout E)
          (calibration_acquired E),
        dibujarInterfazBase,
        (\<lambda>s. dibujarBotonSistema (sistemaEstado s) s),
        dibujarBotonBL,
        actualizarVisualReles,
        actualizarTemperaturas L (setup_t1 E) (setup_t2 E),
        pinMode_OUTPUT PIN_BL,
        digitalWrite PIN_BL LOW,
        (\<lambda>s. s\<lparr>pantallaEncendida := True\<rparr>),
        println ''--- Sistema Iniciado y Pantalla ON ---'']"

subsection \<open>loop\<close>

text \<open>
  What one pass of \<^verbatim>\<open>loop\<close> reads from its surroundings: the Bluetooth input, the four
  readings of \<^verbatim>\<open>millis()\<close> (each task reads the clock once in its comparison and once
  more when it fires), the first answer of \<^verbatim>\<open>tft.getTouch\<close> and its answers in the
  closing \<^verbatim>\<open>while\<close> loop, the two sensor readings, and whether a Bluetooth client is
  connected.  The clock is \<^verbatim>\<open>unsigned long\<close>, 32 bits on this target; touch coordinates
  are \<^verbatim>\<open>uint16_t\<close> and are compared as \<^verbatim>\<open>int\<close>.
\<close>

record 't loop_env =
  bt_available :: bool
  bt_incoming :: string
  millis_temp :: "32 word"
  millis_temp_set :: "32 word"
  millis_relay :: "32 word"
  millis_relay_set :: "32 word"
  touch :: "(16 word \<times> 16 word) option"
  touch_after :: "(16 word \<times> 16 word) option list"
  loop_t1 :: 't
  loop_t2 :: 't
  has_client :: bool

text \<open>
  The three blocks \<^verbatim>\<open>loop\<close> runs before it looks for a touch, in its order: the
  Bluetooth input (\<open>btListen\<close>), the sensors every 2 s (\<open>sensorTask\<close>), the relays every
  3 s (\<open>relayTask\<close>).  In the two timed blocks \<open>now\<close> is the clock read in the comparison
  and \<open>now'\<close> the clock read for the new timestamp.
\<close>

definition btListen :: "bool \<Rightarrow> string \<Rightarrow> sys \<Rightarrow> sys" where
  "btListen available incoming s =
     (if btActivo s \<and> available then println (''BT RECIBIDO: '' @ incoming) s else s)"

definition sensorTask :: "'t floatlib \<Rightarrow> 't \<Rightarrow> 't \<Rightarrow> 32 word \<Rightarrow> 32 word \<Rightarrow> sys \<Rightarrow> sys" where
  "sensorTask L t1 t2 now now' s =
     (if now - lastTempMillis s \<ge> 2000
      then do_all
        [(\<lambda>s. s\<lparr>lastTempMillis := now'\<rparr>),
         emit RequestTemperatures,
         (\<lambda>s. if pantallaEncendida s then actualizarTemperaturas L t1 t2 s else s)] s
      else s)"

definition relayTask :: "32 word \<Rightarrow> 32 word \<Rightarrow> sys \<Rightarrow> sys" where
  "relayTask now now' s =
     (if now - lastRelayMillis s \<ge> 3000
      then do_all
        [(\<lambda>s. s\<lparr>lastRelayMillis := now'\<rparr>),
         (\<lambda>s. s\<lparr>estadoRele := \<not> estadoRele s\<rparr>),
         (\<lambda>s. digitalWrite PIN_RELE1 (level_of (estadoRele s)) s),
         (\<lambda>s. digitalWrite PIN_RELE2 (level_of (\<not> estadoRele s)) s),
         (\<lambda>s. if pantallaEncendida s then actualizarVisualReles s else s)] s
      else s)"

text \<open>
  The body of \<^verbatim>\<open>if (tft.getTouch(&x, &y, 250))\<close> up to the closing \<^verbatim>\<open>while\<close>.  The flag
  is true when the body left \<^verbatim>\<open>loop\<close> by its \<^verbatim>\<open>return\<close>.
\<close>

definition touchTask ::
  "'t floatlib \<Rightarrow> 't \<Rightarrow> 't \<Rightarrow> bool \<Rightarrow> 16 word \<Rightarrow> 16 word \<Rightarrow> sys \<Rightarrow> sys \<times> bool" where
  "touchTask L t1 t2 hasClient x y s =
     (if uint y < 40 \<and> uint x > 180
      then (do_all [toggleBluetooth, delay 300] s, True)
      else
        (if \<not> pantallaEncendida s
         then
           (if uint x > btn2X \<and> uint x < btn2X + btnW \<and> uint y > btnY \<and> uint y < btnY + btnH
            then do_all [gestionarModoEnergia L t1 t2 True, delay 300] s
            else s)
         else
           (if uint x > btn1X \<and> uint x < btn1X + btnW \<and> uint y > btnY \<and> uint y < btnY + btnH
            then do_all
              [(\<lambda>s. s\<lparr>sistemaEstado := \<not> sistemaEstado s\<rparr>),
               (\<lambda>s. dibujarBotonSistema (sistemaEstado s) s),
               (\<lambda>s. println (''Tactil presionado: '' @ (if sistemaEstado s then ''ON'' else ''OFF'')) s),
               enviarReporteEstado L t1 t2 hasClient,
               delay 350] s
            else if uint x > btn2X \<and> uint x < btn2X + btnW \<and> uint y > btnY \<and> uint y < btnY + btnH
            then gestionarModoEnergia L t1 t2 False s
            else s),
         False))"

text \<open>
  \<^verbatim>\<open>while (tft.getTouch(&x, &y, 250));\<close> over the answers still to come: the loop ends at
  the first answer without contact.  When every answer listed reports contact the
  loop has not ended.
\<close>

fun drain :: "'a option list \<Rightarrow> bool" where
  "drain [] = False"
| "drain (None # rest) = True"
| "drain (Some c # rest) = drain rest"

text \<open>
  One pass of \<^verbatim>\<open>loop\<close>: the state once its statements have run, and whether the closing
  \<^verbatim>\<open>while\<close> is entered.  \<open>loop\<close> is the pass as a call that returns: \<open>None\<close> when the
  closing \<^verbatim>\<open>while\<close> does not end.
\<close>

definition loop_pass :: "'t floatlib \<Rightarrow> 't loop_env \<Rightarrow> sys \<Rightarrow> sys \<times> bool" where
  "loop_pass L E s =
     (let s = btListen (bt_available E) (bt_incoming E) s;
          s = sensorTask L (loop_t1 E) (loop_t2 E) (millis_temp E) (millis_temp_set E) s;
          s = relayTask (millis_relay E) (millis_relay_set E) s
      in case touch E of
           None \<Rightarrow> (s, False)
         | Some (x, y) \<Rightarrow>
             (case touchTask L (loop_t1 E) (loop_t2 E) (has_client E) x y s of
                (s, returned) \<Rightarrow> (s, \<not> returned)))"

definition loop :: "'t floatlib \<Rightarrow> 't loop_env \<Rightarrow> sys \<Rightarrow> sys option" where
  "loop L E s =
     (case loop_pass L E s of
        (s, draining) \<Rightarrow>
          if draining then (if drain (touch_after E) then Some s else None) else Some s)"

subsection \<open>Bluetooth callback\<close>

datatype esp_spp_cb_event_t = ESP_SPP_SRV_OPEN_EVT | ESP_SPP_OTHER_EVT

definition btCallback ::
  "'t floatlib \<Rightarrow> 't \<Rightarrow> 't \<Rightarrow> bool \<Rightarrow> esp_spp_cb_event_t \<Rightarrow> sys \<Rightarrow> sys" where
  "btCallback L t1 t2 hasClient event s =
     (if event = ESP_SPP_SRV_OPEN_EVT
      then do_all
        [println (''\<newline>[BT] '' @ [CHR 0xC2, CHR 0xA1] @ ''Cliente conectado!''),
         delay 200,
         enviarReporteEstado L t1 t2 hasClient] s
      else s)"

subsection \<open>Reachable states\<close>

text \<open>
  The states the firmware is in between its operations: the one \<^verbatim>\<open>setup\<close> leaves, and
  from there every pass of \<^verbatim>\<open>loop\<close> (also one that stays in its closing \<^verbatim>\<open>while\<close>)
  and every call of the Bluetooth callback, with any surroundings.
\<close>

inductive reachable :: "'t floatlib \<Rightarrow> sys \<Rightarrow> bool" for L :: "'t floatlib" where
  after_setup: "reachable L (setup_fw L E (power_on mhz stored))"
| after_pass: "reachable L s \<Longrightarrow> reachable L (fst (loop_pass L E s))"
| after_callback: "reachable L s \<Longrightarrow> reachable L (btCallback L t1 t2 hasClient event s)"

section \<open>Notions used in the statements\<close>

text \<open>
  The lines of a text: the pieces ended by a newline, and what follows the last
  newline when that is not empty.
\<close>

fun split_lines :: "string \<Rightarrow> string \<Rightarrow> string list" where
  "split_lines acc [] = (if acc = [] then [] else [acc])"
| "split_lines acc (c # cs) =
     (if c = CHR 0x0A then acc # split_lines [] cs else split_lines (acc @ [c]) cs)"

definition lines_of :: "string \<Rightarrow> string list" where
  "lines_of txt = split_lines [] txt"

text \<open>A line that reports a sensor starts with the label of one.\<close>

definition sensor_line :: "string \<Rightarrow> bool" where
  "sensor_line l = (take 4 l = ''S1: '' \<or> take 4 l = ''S2: '')"

subsection \<open>A sample float library and sample surroundings\<close>

text \<open>
  For evaluating the model on concrete inputs: readings in tenths of a degree, the
  sentinel at \<open>-127.0\<close>, and the conversion to text with one decimal.
\<close>

fun digits :: "nat \<Rightarrow> string" where
  "digits n =
     (if n < 10 then [''0123456789'' ! n]
      else digits (n div 10) @ [''0123456789'' ! (n mod 10)])"

declare digits.simps [simp del]

definition sample_lib :: "int floatlib" where
  "sample_lib =
     \<lparr> DEVICE_DISCONNECTED_C = - 1270,
       String1 = (\<lambda>t. (if t < 0 then ''-'' else []) @ digits (nat \<bar>t\<bar> div 10) @ ''.''
                        @ digits (nat \<bar>t\<bar> mod 10)) \<rparr>"

definition sample_blob :: "byte list" where
  "sample_blob = [1, 2, 3, 4, 5, 6, 7, 8, 9, 10, 11, 12, 13, 14]"

definition sample_calibration :: "nat \<Rightarrow> byte" where
  "sample_calibration i = of_nat (Suc i)"

text \<open>
  Sample surroundings of \<^verbatim>\<open>setup\<close>: the store mounts, no serial input is pending, the
  stack holds zeros, \<^verbatim>\<open>check\<close> is the byte right behind \<^verbatim>\<open>calData\<close>, and the calibration
  acquired has the bytes 1 to 10.
\<close>

definition sample_setup_env :: "int setup_env" where
  "sample_setup_env =
     \<lparr> spiffs_begin_ok = True, serial_available = False,
       calData_stack = (\<lambda>i. 0), check_layout = Some 0,
       calibration_acquired = sample_calibration, setup_t1 = 215, setup_t2 = - 1270 \<rparr>"

text \<open>The state after a first boot, on a store without files.\<close>

definition booted :: sys where
  "booted = setup_fw sample_lib sample_setup_env (power_on 240 (\<lambda>p. None))"

text \<open>The same state once the display has been put to sleep.\<close>

definition asleep :: sys where
  "asleep = gestionarModoEnergia sample_lib 215 (- 1270) False booted"

section \<open>Basic facts\<close>

lemma do_all_Nil [simp]: "do_all [] s = s"
  by (simp add: do_all_def)

lemma do_all_Cons [simp]: "do_all (f # fs) s = do_all fs (f s)"
  by (simp add: do_all_def)

subsection \<open>What each routine leaves unchanged\<close>

lemmas prim_defs = emit_def println_def delay_def pinMode_OUTPUT_def digitalWrite_def
  setCpuFrequencyMhz_def SerialBT_begin_def SerialBT_end_def
lemmas draw_defs = dibujarInterfazBase_def dibujarBotonSistema_def dibujarBotonBL_def
  actualizarVisualReles_def actualizarTemperaturas_def
lemmas pin_defs = PIN_BL_def PIN_RELE1_def PIN_RELE2_def

lemma touch_calibrate_frame:
  "sistemaEstado (touch_calibrate a st lay b s) = sistemaEstado s"
  "pantallaEncendida (touch_calibrate a st lay b s) = pantallaEncendida s"
  "btActivo (touch_calibrate a st lay b s) = btActivo s"
  "estadoRele (touch_calibrate a st lay b s) = estadoRele s"
  "pins (touch_calibrate a st lay b s) = pins s"
  "cpuMhz (touch_calibrate a st lay b s) = cpuMhz s"
  "btRunning (touch_calibrate a st lay b s) = btRunning s"
  by (simp_all add: touch_calibrate_def prim_defs SPIFFS_open_w_def Let_def
        split: option.splits prod.splits)

lemma touch_calibrate_frame2:
  "lastRelayMillis (touch_calibrate a st lay b s) = lastRelayMillis s"
  "lastTempMillis (touch_calibrate a st lay b s) = lastTempMillis s"
  by (simp_all add: touch_calibrate_def prim_defs SPIFFS_open_w_def Let_def
        split: option.splits prod.splits)

lemma enviarReporteEstado_frame:
  "estadoRele (enviarReporteEstado L t1 t2 hc s) = estadoRele s"
  "pins (enviarReporteEstado L t1 t2 hc s) = pins s"
  "sistemaEstado (enviarReporteEstado L t1 t2 hc s) = sistemaEstado s"
  "pantallaEncendida (enviarReporteEstado L t1 t2 hc s) = pantallaEncendida s"
  "btActivo (enviarReporteEstado L t1 t2 hc s) = btActivo s"
  by (simp_all add: enviarReporteEstado_def prim_defs Let_def)

lemma toggleBluetooth_relays:
  "estadoRele (toggleBluetooth s) = estadoRele s"
  "pins (toggleBluetooth s) = pins s"
  by (simp_all add: toggleBluetooth_def prim_defs Let_def)

lemma gestionarModoEnergia_relays:
  "estadoRele (gestionarModoEnergia L t1 t2 d s) = estadoRele s"
  "pins (gestionarModoEnergia L t1 t2 d s) = (pins s)(PIN_BL := Some LOW)"
  by (simp_all add: gestionarModoEnergia_def prim_defs draw_defs)

lemma btListen_relays:
  "estadoRele (btListen a i s) = estadoRele s"
  "pins (btListen a i s) = pins s"
  by (simp_all add: btListen_def prim_defs)

lemma sensorTask_relays:
  "estadoRele (sensorTask L t1 t2 n n' s) = estadoRele s"
  "pins (sensorTask L t1 t2 n n' s) = pins s"
  by (simp_all add: sensorTask_def prim_defs draw_defs)

lemma btCallback_relays:
  "estadoRele (btCallback L t1 t2 hc ev s) = estadoRele s"
  "pins (btCallback L t1 t2 hc ev s) = pins s"
  by (simp_all add: btCallback_def prim_defs enviarReporteEstado_frame)

lemma touchTask_relays:
  "estadoRele (fst (touchTask L t1 t2 hc x y s)) = estadoRele s"
  "pins (fst (touchTask L t1 t2 hc x y s)) PIN_RELE1 = pins s PIN_RELE1"
  "pins (fst (touchTask L t1 t2 hc x y s)) PIN_RELE2 = pins s PIN_RELE2"
  by (simp_all add: touchTask_def prim_defs draw_defs pin_defs toggleBluetooth_relays
        gestionarModoEnergia_relays enviarReporteEstado_frame)

lemma relayTask_fired:
  "3000 \<le> now - lastRelayMillis s \<Longrightarrow>
     estadoRele (relayTask now now' s) = (\<not> estadoRele s) \<and>
     lastRelayMillis (relayTask now now' s) = now' \<and>
     pins (relayTask now now' s) PIN_RELE1 = Some (level_of (\<not> estadoRele s)) \<and>
     pins (relayTask now now' s) PIN_RELE2 = Some (level_of (estadoRele s))"
  by (simp add: relayTask_def prim_defs draw_defs pin_defs)

lemma relayTask_idle:
  "\<not> 3000 \<le> now - lastRelayMillis s \<Longrightarrow> relayTask now now' s = s"
  by (simp add: relayTask_def)

lemma relayTask_keeps_relays:
  assumes "pins s PIN_RELE1 = Some (level_of (estadoRele s))"
    and "pins s PIN_RELE2 = Some (level_of (\<not> estadoRele s))"
  shows "pins (relayTask now now' s) PIN_RELE1 = Some (level_of (estadoRele (relayTask now now' s)))"
    and "pins (relayTask now now' s) PIN_RELE2 = Some (level_of (\<not> estadoRele (relayTask now now' s)))"
  using assms relayTask_fired [of now s now'] relayTask_idle [of now s now']
  by (cases "3000 \<le> now - lastRelayMillis s"; simp)+

lemma loop_pass_keeps_relays:
  assumes "pins s PIN_RELE1 = Some (level_of (estadoRele s))"
    and "pins s PIN_RELE2 = Some (level_of (\<not> estadoRele s))"
  shows "pins (fst (loop_pass L E s)) PIN_RELE1 = Some (level_of (estadoRele (fst (loop_pass L E s))))"
    and "pins (fst (loop_pass L E s)) PIN_RELE2 = Some (level_of (\<not> estadoRele (fst (loop_pass L E s))))"
proof -
  define a where "a = sensorTask L (loop_t1 E) (loop_t2 E) (millis_temp E) (millis_temp_set E)
     (btListen (bt_available E) (bt_incoming E) s)"
  define b where "b = relayTask (millis_relay E) (millis_relay_set E) a"
  have a: "pins a PIN_RELE1 = Some (level_of (estadoRele a))"
    "pins a PIN_RELE2 = Some (level_of (\<not> estadoRele a))"
    using assms by (simp_all add: a_def sensorTask_relays btListen_relays)
  have b: "pins b PIN_RELE1 = Some (level_of (estadoRele b))"
    "pins b PIN_RELE2 = Some (level_of (\<not> estadoRele b))"
    unfolding b_def using a by (rule relayTask_keeps_relays)+
  have pass: "fst (loop_pass L E s) =
    (case touch E of None \<Rightarrow> b
     | Some (x, y) \<Rightarrow> fst (touchTask L (loop_t1 E) (loop_t2 E) (has_client E) x y b))"
    by (simp add: loop_pass_def Let_def a_def b_def split: option.splits prod.splits)
  show "pins (fst (loop_pass L E s)) PIN_RELE1 = Some (level_of (estadoRele (fst (loop_pass L E s))))"
    using b by (simp add: pass touchTask_relays split: option.splits)
  show "pins (fst (loop_pass L E s)) PIN_RELE2 = Some (level_of (\<not> estadoRele (fst (loop_pass L E s))))"
    using b by (simp add: pass touchTask_relays split: option.splits)
qed

lemma loop_returns:
  "loop L E s = Some s' \<Longrightarrow> s' = fst (loop_pass L E s)"
  by (auto simp add: loop_def split: prod.splits if_splits)

lemma loop_without_touch:
  "touch E = None \<Longrightarrow> loop L E s = Some (fst (loop_pass L E s))"
  by (simp add: loop_def loop_pass_def Let_def)

lemma loop_released:
  "drain (touch_after E) \<Longrightarrow> loop L E s = Some (fst (loop_pass L E s))"
  by (simp add: loop_def split: prod.splits)

lemma reachable_loop:
  "reachable L s \<Longrightarrow> loop L E s = Some s' \<Longrightarrow> reachable L s'"
  using loop_returns [of L E s s'] reachable.after_pass [of L s E] by simp

lemma setup_fw_relays:
  "estadoRele (setup_fw L E (power_on mhz stored)) = False"
  "pins (setup_fw L E (power_on mhz stored)) PIN_RELE1 = Some LOW"
  "pins (setup_fw L E (power_on mhz stored)) PIN_RELE2 = Some HIGH"
  by (simp_all add: setup_fw_def power_on_def prim_defs draw_defs pin_defs touch_calibrate_frame)

lemma reachable_relays:
  "reachable L s \<Longrightarrow>
     pins s PIN_RELE1 = Some (level_of (estadoRele s)) \<and>
     pins s PIN_RELE2 = Some (level_of (\<not> estadoRele s))"
proof (induction rule: reachable.induct)
  case (after_setup E mhz stored)
  show ?case by (simp add: setup_fw_relays level_of_def)
next
  case (after_pass s E)
  then show ?case using loop_pass_keeps_relays [of s L E] by blast
next
  case (after_callback s t1 t2 hasClient event)
  then show ?case by (simp add: btCallback_relays)
qed

lemma word32_le_of_nat: "d < 2 ^ 32 \<Longrightarrow> ((3000 :: 32 word) \<le> of_nat d) = (3000 \<le> d)"
  by (simp add: word_le_nat_alt unat_of_nat)

lemma setup_fw_globals:
  "sistemaEstado (setup_fw L E (power_on mhz stored)) = False"
  "pantallaEncendida (setup_fw L E (power_on mhz stored)) = True"
  "btActivo (setup_fw L E (power_on mhz stored)) = False"
  "lastRelayMillis (setup_fw L E (power_on mhz stored)) = 0"
  "lastTempMillis (setup_fw L E (power_on mhz stored)) = 0"
  "cpuMhz (setup_fw L E (power_on mhz stored)) = 240"
  "btRunning (setup_fw L E (power_on mhz stored)) = False"
  by (simp_all add: setup_fw_def power_on_def prim_defs draw_defs touch_calibrate_frame touch_calibrate_frame2)

lemma toggleBluetooth_flags:
  "btActivo (toggleBluetooth s) = (\<not> btActivo s)"
  "btRunning (toggleBluetooth s) = (\<not> btActivo s)"
  "pantallaEncendida (toggleBluetooth s) = pantallaEncendida s"
  by (simp_all add: toggleBluetooth_def prim_defs Let_def)

lemma gestionarModoEnergia_flags:
  "pantallaEncendida (gestionarModoEnergia L t1 t2 d s) = d"
  "btActivo (gestionarModoEnergia L t1 t2 d s) = btActivo s"
  "sistemaEstado (gestionarModoEnergia L t1 t2 d s) = sistemaEstado s"
  by (simp_all add: gestionarModoEnergia_def prim_defs draw_defs)

section \<open>Relay outputs\<close>

text \<open>
  Claim C1.  In every reachable state the two relay outputs are complementary: pin
  \<^verbatim>\<open>PIN_RELE1\<close> carries the level of \<open>estadoRele\<close>, pin \<^verbatim>\<open>PIN_RELE2\<close> the level of its
  negation, so the two differ.  This holds when \<^verbatim>\<open>setup\<close> is left, after every pass of
  \<^verbatim>\<open>loop\<close> and after every callback; and a firing of the relay task establishes it from
  any state \<open>s0\<close>, whatever the phase and the pins were before.
\<close>

theorem relays_complementary:
  "(reachable L s \<longrightarrow>
      pins s PIN_RELE1 = Some (level_of (estadoRele s)) \<and>
      pins s PIN_RELE2 = Some (level_of (\<not> estadoRele s)) \<and>
      pins s PIN_RELE1 \<noteq> pins s PIN_RELE2) \<and>
   (3000 \<le> now - lastRelayMillis s0 \<longrightarrow>
      pins (relayTask now now' s0) PIN_RELE1 = Some (level_of (estadoRele (relayTask now now' s0))) \<and>
      pins (relayTask now now' s0) PIN_RELE2 = Some (level_of (\<not> estadoRele (relayTask now now' s0))) \<and>
      pins (relayTask now now' s0) PIN_RELE1 \<noteq> pins (relayTask now now' s0) PIN_RELE2)"
proof -
  have compl: "Some (level_of b) \<noteq> Some (level_of (\<not> b))" for b
    by (simp add: level_of_def)
  show ?thesis
    using reachable_relays [of L s] relayTask_fired [of now s0 now'] compl
    by (cases "estadoRele s0"; cases "estadoRele s"; simp add: level_of_def)
qed

theorem relays_complementary_witness:
  "reachable sample_lib booted \<and>
   pins booted PIN_RELE1 = Some LOW \<and> pins booted PIN_RELE2 = Some HIGH \<and>
   (3000 :: 32 word) \<le> 5000 - lastRelayMillis (booted\<lparr>estadoRele := True\<rparr>) \<and>
   pins (relayTask 5000 5001 (booted\<lparr>estadoRele := True\<rparr>)) PIN_RELE1 = Some LOW \<and>
   pins (relayTask 5000 5001 (booted\<lparr>estadoRele := True\<rparr>)) PIN_RELE2 = Some HIGH"
proof -
  have r: "reachable sample_lib booted"
    unfolding booted_def by (rule reachable.after_setup)
  have g: "estadoRele booted = False" "lastRelayMillis booted = 0"
    by (simp_all add: booted_def setup_fw_globals setup_fw_relays)
  have h: "(3000 :: 32 word) \<le> 5000 - lastRelayMillis (booted\<lparr>estadoRele := True\<rparr>)"
    by (simp add: g)
  show ?thesis
    using r h g relayTask_fired [OF h, of 5001]
      relays_complementary [of sample_lib booted 5000 "booted\<lparr>estadoRele := True\<rparr>" 5001]
    by (simp add: level_of_def)
qed

text \<open>
  Claim C5.  Let \<open>d\<close> milliseconds (fewer than \<open>2 ^ 32\<close>, the range of the clock) have
  passed since the timestamp in \<open>lastRelayMillis\<close>, the clock having possibly wrapped
  around.  The relay task fires exactly when \<open>d \<ge> 3000\<close>: then the phase is flipped once
  and the timestamp becomes the clock value read at that moment; otherwise both stay.
  After a firing, however late it came, a check fewer than 3000 ms after the new
  timestamp changes nothing: there is no burst of firings to catch up.
\<close>

theorem relay_task_timing:
  assumes "d < 2 ^ 32"
  shows "estadoRele (relayTask (lastRelayMillis s + of_nat d) now' s)
           = (if 3000 \<le> d then \<not> estadoRele s else estadoRele s) \<and>
         lastRelayMillis (relayTask (lastRelayMillis s + of_nat d) now' s)
           = (if 3000 \<le> d then now' else lastRelayMillis s) \<and>
         (3000 \<le> d \<and> d' < 3000 \<longrightarrow>
            relayTask (now' + of_nat d') now'' (relayTask (lastRelayMillis s + of_nat d) now' s)
              = relayTask (lastRelayMillis s + of_nat d) now' s)"
proof -
  have fire: "(3000 \<le> lastRelayMillis s + of_nat d - lastRelayMillis s) = (3000 \<le> d)"
    using assms by (simp add: word32_le_of_nat)
  have idle: "\<not> 3000 \<le> now' + of_nat d' - now'" if "d' < 3000"
    using that by (simp add: word32_le_of_nat)
  show ?thesis
  proof (cases "3000 \<le> d")
    case True
    then have f: "3000 \<le> lastRelayMillis s + of_nat d - lastRelayMillis s"
      using fire by simp
    note r = relayTask_fired [OF f, of now']
    from r True idle show ?thesis
      by (auto intro!: relayTask_idle)
  next
    case False
    then have "\<not> 3000 \<le> lastRelayMillis s + of_nat d - lastRelayMillis s"
      using fire by simp
    then have "relayTask (lastRelayMillis s + of_nat d) now' s = s"
      by (rule relayTask_idle)
    with False show ?thesis by simp
  qed
qed

theorem relay_task_timing_witness:
  "(2999 :: nat) < 2 ^ 32 \<and>
   estadoRele (relayTask (lastRelayMillis booted + 2999) 2999 booted) = estadoRele booted \<and>
   lastRelayMillis (relayTask (lastRelayMillis booted + 2999) 2999 booted) = lastRelayMillis booted \<and>
   (3000 :: nat) < 2 ^ 32 \<and>
   estadoRele (relayTask (lastRelayMillis booted + 3000) 3001 booted) = (\<not> estadoRele booted) \<and>
   lastRelayMillis (relayTask (lastRelayMillis booted + 3000) 3001 booted) = 3001 \<and>
   (10000 :: nat) < 2 ^ 32 \<and> (3000 :: nat) \<le> 10000 \<and> (2999 :: nat) < 3000 \<and>
   relayTask (10002 + 2999) 13001 (relayTask (lastRelayMillis booted + 10000) 10002 booted)
     = relayTask (lastRelayMillis booted + 10000) 10002 booted"
  using relay_task_timing [of 2999 booted 2999]
    relay_task_timing [of 3000 booted 3001]
    relay_task_timing [of 10000 booted 10002 2999 13001]
  by simp

section \<open>Touch routing\<close>

text \<open>
  Claim C3.  A touch with \<open>y < 40\<close> and \<open>x > 180\<close> (the status region at the top right)
  toggles Bluetooth and leaves \<^verbatim>\<open>loop\<close>, whatever \<open>pantallaEncendida\<close> is.  Any other touch
  while \<open>pantallaEncendida\<close> is false wakes the display when it lies strictly inside the
  right button (\<open>125 < x < 230\<close>, \<open>250 < y < 310\<close>) and otherwise leaves the whole state as
  it was, the list of calls on the collaborators included.
\<close>

theorem touch_routing:
  "(uint y < 40 \<and> 180 < uint x \<longrightarrow>
      touchTask L t1 t2 hc x y s = (delay 300 (toggleBluetooth s), True)) \<and>
   (\<not> (uint y < 40 \<and> 180 < uint x) \<and> \<not> pantallaEncendida s \<longrightarrow>
      touchTask L t1 t2 hc x y s =
        (if 125 < uint x \<and> uint x < 230 \<and> 250 < uint y \<and> uint y < 310
         then delay 300 (gestionarModoEnergia L t1 t2 True s) else s, False))"
  by (simp add: touchTask_def btn2X_def btnW_def btnY_def btnH_def)

theorem touch_routing_witness:
  "uint (10 :: 16 word) < 40 \<and> 180 < uint (200 :: 16 word) \<and>
   \<not> pantallaEncendida asleep \<and> \<not> btActivo asleep \<and>
   btActivo (fst (touchTask sample_lib 215 (- 1270) False 200 10 asleep)) \<and>
   btActivo (fst (touchTask sample_lib 215 (- 1270) False 200 10 booted)) \<and>
   \<not> (uint (280 :: 16 word) < 40 \<and> 180 < uint (150 :: 16 word)) \<and>
   pantallaEncendida (fst (touchTask sample_lib 215 (- 1270) False 150 280 asleep)) \<and>
   \<not> (uint (100 :: 16 word) < 40 \<and> 180 < uint (50 :: 16 word)) \<and>
   touchTask sample_lib 215 (- 1270) False 50 100 asleep = (asleep, False)"
proof -
  have a: "\<not> pantallaEncendida asleep" "\<not> btActivo asleep" "\<not> btActivo booted"
    by (simp_all add: asleep_def booted_def gestionarModoEnergia_flags setup_fw_globals)
  show ?thesis
    using a
      touch_routing [of 10 200 sample_lib 215 "- 1270" False asleep]
      touch_routing [of 10 200 sample_lib 215 "- 1270" False booted]
      touch_routing [of 280 150 sample_lib 215 "- 1270" False asleep]
      touch_routing [of 100 50 sample_lib 215 "- 1270" False asleep]
    by (simp add: delay_def emit_def toggleBluetooth_flags gestionarModoEnergia_flags)
qed

section \<open>Bluetooth toggle\<close>

text \<open>
  Claim C7, as amended.  Two calls of \<^verbatim>\<open>toggleBluetooth\<close> in a row bring \<open>btActivo\<close> back to
  its value, and leave the channel running exactly when \<open>btActivo\<close> was true before: it is
  stopped only when it was off to begin with.
\<close>

theorem toggle_twice:
  "btActivo (toggleBluetooth (toggleBluetooth s)) = btActivo s \<and>
   btRunning (toggleBluetooth (toggleBluetooth s)) = btActivo s"
  by (simp add: toggleBluetooth_def prim_defs Let_def)

text \<open>
  The claim as stated (the channel ends up stopped for every initial value) fails
  from the state one toggle after the first boot, where \<open>btActivo\<close> is true: two further
  toggles leave the channel running.
\<close>

theorem toggle_twice_counterexample:
  "btActivo (toggleBluetooth booted) \<and>
   btActivo (toggleBluetooth (toggleBluetooth (toggleBluetooth booted))) \<and>
   \<not> btRunning (toggleBluetooth (toggleBluetooth (toggleBluetooth booted))) = False"
  by (simp add: toggleBluetooth_flags booted_def setup_fw_globals)

text \<open>
  Claim C9.  When \<^verbatim>\<open>toggleBluetooth\<close> enables the channel the CPU clock becomes 240 MHz;
  when it disables the channel the clock stays as it is.  In particular, after the
  display was put to sleep with the channel off (clock 80 MHz) the toggle raises the
  clock to 240 MHz with the display still asleep, and after it was put to sleep with the
  channel on (clock 160 MHz) the toggle leaves 160 MHz.
\<close>

theorem toggle_cpu:
  "cpuMhz (toggleBluetooth s) = (if btActivo s then cpuMhz s else 240) \<and>
   btActivo (toggleBluetooth s) = (\<not> btActivo s) \<and>
   btRunning (toggleBluetooth s) = (\<not> btActivo s) \<and>
   pantallaEncendida (toggleBluetooth s) = pantallaEncendida s \<and>
   cpuMhz (gestionarModoEnergia L t1 t2 False s) = (if btActivo s then 160 else 80) \<and>
   cpuMhz (toggleBluetooth (gestionarModoEnergia L t1 t2 False s)) = (if btActivo s then 160 else 240)"
  by (simp add: toggleBluetooth_def gestionarModoEnergia_def prim_defs Let_def)

section \<open>Power mode\<close>

text \<open>
  Claim C8.  \<^verbatim>\<open>gestionarModoEnergia\<close>, in either direction, leaves \<open>sistemaEstado\<close>,
  \<open>btActivo\<close>, \<open>estadoRele\<close>, both timestamps, the Bluetooth channel, the file store and
  every pin but the backlight as they were; it sets \<open>pantallaEncendida\<close> to its argument.
  So waking after sleeping gives back the value \<open>sistemaEstado\<close> had before sleeping.
\<close>

theorem power_mode_frame:
  "sistemaEstado (gestionarModoEnergia L t1 t2 d s) = sistemaEstado s \<and>
   btActivo (gestionarModoEnergia L t1 t2 d s) = btActivo s \<and>
   estadoRele (gestionarModoEnergia L t1 t2 d s) = estadoRele s \<and>
   lastRelayMillis (gestionarModoEnergia L t1 t2 d s) = lastRelayMillis s \<and>
   lastTempMillis (gestionarModoEnergia L t1 t2 d s) = lastTempMillis s \<and>
   btRunning (gestionarModoEnergia L t1 t2 d s) = btRunning s \<and>
   fsMounted (gestionarModoEnergia L t1 t2 d s) = fsMounted s \<and>
   files (gestionarModoEnergia L t1 t2 d s) = files s \<and>
   pins (gestionarModoEnergia L t1 t2 d s) = (pins s)(PIN_BL := Some LOW) \<and>
   pantallaEncendida (gestionarModoEnergia L t1 t2 d s) = d \<and>
   sistemaEstado (gestionarModoEnergia L t1' t2' True (gestionarModoEnergia L t1 t2 False s))
     = sistemaEstado s"
  by (simp add: gestionarModoEnergia_def prim_defs draw_defs)

text \<open>
  Claim C2, evaluated on the code.  Going to sleep issues the display command
  \<open>0x10\<close>, lowers the clock to 160 MHz when Bluetooth is active and to 80 MHz otherwise,
  and clears \<open>pantallaEncendida\<close>.  The backlight pin, however, is written \<^verbatim>\<open>LOW\<close> both on
  going to sleep (source comment: 0 = OFF) and on waking (source comment: 1 = ON), so
  the level after sleeping is the level after waking.
\<close>

theorem sleep_backlight:
  "pins (gestionarModoEnergia L t1 t2 False s) PIN_BL = Some LOW \<and>
   pins (gestionarModoEnergia L t1 t2 True s) PIN_BL = Some LOW \<and>
   trace (gestionarModoEnergia L t1 t2 False s) = trace s @ [TftWriteCommand 0x10] \<and>
   cpuMhz (gestionarModoEnergia L t1 t2 False s) = (if btActivo s then 160 else 80) \<and>
   pantallaEncendida (gestionarModoEnergia L t1 t2 False s) = False"
  by (simp add: gestionarModoEnergia_def prim_defs draw_defs)

section \<open>Boot\<close>

text \<open>
  Claim C10.  Whatever the clock, the stored files and the surroundings of \<^verbatim>\<open>setup\<close>
  are, \<^verbatim>\<open>setup\<close> leaves \<open>pantallaEncendida\<close> true, \<open>sistemaEstado\<close>, \<open>btActivo\<close> and
  \<open>estadoRele\<close> false, relay pin 1 at \<^verbatim>\<open>LOW\<close> and relay pin 2 at \<^verbatim>\<open>HIGH\<close>.
\<close>

theorem setup_fixed_state:
  "pantallaEncendida (setup_fw L E (power_on mhz stored)) = True \<and>
   sistemaEstado (setup_fw L E (power_on mhz stored)) = False \<and>
   btActivo (setup_fw L E (power_on mhz stored)) = False \<and>
   estadoRele (setup_fw L E (power_on mhz stored)) = False \<and>
   pins (setup_fw L E (power_on mhz stored)) PIN_RELE1 = Some LOW \<and>
   pins (setup_fw L E (power_on mhz stored)) PIN_RELE2 = Some HIGH"
  by (simp add: setup_fw_globals setup_fw_relays)

section \<open>Status report\<close>

lemma split_lines_append:
  "CHR 0x0A \<notin> set l \<Longrightarrow> split_lines acc (l @ rest) = split_lines (acc @ l) rest"
  by (induction l arbitrary: acc) auto

lemma reporte_lines:
  assumes "CHR 0x0A \<notin> set (String1 L t1)" and "CHR 0x0A \<notin> set (String1 L t2)"
  shows "lines_of (reporte L t1 t2 s) =
     [[],
      ''--- REPORTE ESP32 ---'',
      ''S1: '' @ (if t1 = DEVICE_DISCONNECTED_C L then ''ERR'' else String1 L t1 @ ''C'')
        @ '' | S2: '' @ (if t2 = DEVICE_DISCONNECTED_C L then ''ERR'' else String1 L t2 @ ''C''),
      ''Reles: K1='' @ (if estadoRele s then ''ON'' else ''OFF'')
        @ '' K2='' @ (if estadoRele s then ''OFF'' else ''ON''),
      ''Tactil: '' @ (if sistemaEstado s then ''ENCENDIDO'' else ''APAGADO''),
      ''Pantalla: '' @ (if pantallaEncendida s then ''ON'' else ''SLEEP''),
      ''---------------------'']"
  using assms by (simp add: lines_of_def reporte_def split_lines_append)

lemma reporte_depends:
  "estadoRele s' = estadoRele s \<Longrightarrow> sistemaEstado s' = sistemaEstado s \<Longrightarrow>
   pantallaEncendida s' = pantallaEncendida s \<Longrightarrow> reporte L t1 t2 s' = reporte L t1 t2 s"
  by (simp add: reporte_def)

lemma enviarReporteEstado_trace:
  "trace (enviarReporteEstado L t1 t2 hc s) =
     trace s @ SerialPrint (reporte L t1 t2 s) # (if hc then [BtPrint (reporte L t1 t2 s)] else [])"
  by (simp add: enviarReporteEstado_def emit_def Let_def reporte_def)

lemma booted_flags:
  "estadoRele booted = False" "sistemaEstado booted = False" "pantallaEncendida booted = True"
  by (simp_all add: booted_def setup_fw_globals setup_fw_relays)

lemma sample_lines:
  "lines_of (reporte sample_lib 215 (- 1270) booted) =
     [[], ''--- REPORTE ESP32 ---'', ''S1: 21.5C | S2: ERR'', ''Reles: K1=OFF K2=ON'',
      ''Tactil: APAGADO'', ''Pantalla: ON'', ''---------------------'']"
  using reporte_lines [of sample_lib 215 "- 1270" booted]
  by (simp add: sample_lib_def digits.simps booted_flags)

lemma toggleBluetooth_sistemaEstado: "sistemaEstado (toggleBluetooth s) = sistemaEstado s"
  by (simp add: toggleBluetooth_def prim_defs Let_def)

text \<open>
  Claim C4, as amended.  The report is a function of the two readings and of
  \<open>estadoRele\<close>, \<open>sistemaEstado\<close> and \<open>pantallaEncendida\<close> alone: states that agree on these
  three give the same text.  When the conversion of the readings yields no newline, the
  text has seven lines: an empty line, a header, one line with both sensor fields
  (\<open>S1\<close> and \<open>S2\<close>, separated by a bar; each the converted reading followed by \<open>C\<close>, or
  \<open>ERR\<close> for the sentinel), one relay line naming \<open>K1\<close> and \<open>K2\<close>, one line for
  \<open>sistemaEstado\<close>, one for \<open>pantallaEncendida\<close>, and a footer.  \<^verbatim>\<open>enviarReporteEstado\<close>
  prints exactly this text on the console, and on Bluetooth when a client is connected.
\<close>

theorem report_layout:
  assumes "CHR 0x0A \<notin> set (String1 L t1)" and "CHR 0x0A \<notin> set (String1 L t2)"
  shows "lines_of (reporte L t1 t2 s) =
     [[],
      ''--- REPORTE ESP32 ---'',
      ''S1: '' @ (if t1 = DEVICE_DISCONNECTED_C L then ''ERR'' else String1 L t1 @ ''C'')
        @ '' | S2: '' @ (if t2 = DEVICE_DISCONNECTED_C L then ''ERR'' else String1 L t2 @ ''C''),
      ''Reles: K1='' @ (if estadoRele s then ''ON'' else ''OFF'')
        @ '' K2='' @ (if estadoRele s then ''OFF'' else ''ON''),
      ''Tactil: '' @ (if sistemaEstado s then ''ENCENDIDO'' else ''APAGADO''),
      ''Pantalla: '' @ (if pantallaEncendida s then ''ON'' else ''SLEEP''),
      ''---------------------''] \<and>
   (estadoRele s' = estadoRele s \<and> sistemaEstado s' = sistemaEstado s \<and>
      pantallaEncendida s' = pantallaEncendida s \<longrightarrow>
      reporte L t1 t2 s' = reporte L t1 t2 s) \<and>
   trace (enviarReporteEstado L t1 t2 hc s) =
     trace s @ SerialPrint (reporte L t1 t2 s) # (if hc then [BtPrint (reporte L t1 t2 s)] else [])"
  using reporte_lines [OF assms, of s] reporte_depends [of s' s L t1 t2]
    enviarReporteEstado_trace [of L t1 t2 hc s]
  by simp

theorem report_layout_witness:
  "CHR 0x0A \<notin> set (String1 sample_lib 215) \<and> CHR 0x0A \<notin> set (String1 sample_lib (- 1270)) \<and>
   lines_of (reporte sample_lib 215 (- 1270) booted) =
     [[], ''--- REPORTE ESP32 ---'', ''S1: 21.5C | S2: ERR'', ''Reles: K1=OFF K2=ON'',
      ''Tactil: APAGADO'', ''Pantalla: ON'', ''---------------------''] \<and>
   estadoRele (toggleBluetooth booted) = estadoRele booted \<and>
   sistemaEstado (toggleBluetooth booted) = sistemaEstado booted \<and>
   pantallaEncendida (toggleBluetooth booted) = pantallaEncendida booted \<and>
   btActivo (toggleBluetooth booted) \<noteq> btActivo booted \<and>
   reporte sample_lib 215 (- 1270) (toggleBluetooth booted) = reporte sample_lib 215 (- 1270) booted"
proof -
  have n: "CHR 0x0A \<notin> set (String1 sample_lib 215)" "CHR 0x0A \<notin> set (String1 sample_lib (- 1270))"
    by (simp_all add: sample_lib_def digits.simps)
  have f: "estadoRele (toggleBluetooth booted) = estadoRele booted"
    "sistemaEstado (toggleBluetooth booted) = sistemaEstado booted"
    "pantallaEncendida (toggleBluetooth booted) = pantallaEncendida booted"
    "btActivo (toggleBluetooth booted) \<noteq> btActivo booted"
    by (simp_all add: toggleBluetooth_relays toggleBluetooth_flags toggleBluetooth_sistemaEstado)
  show ?thesis
    using n f report_layout [OF n, of booted "toggleBluetooth booted" False]
    by (simp add: booted_flags) (simp add: sample_lib_def digits.simps)
qed

text \<open>
  The claim as stated asks for two sensor lines in a layout of five lines.  With
  sensor 1 at 21.5 degrees and sensor 2 disconnected, the report after the first boot has
  seven lines, and one of them, the third, reports both sensors.
\<close>

theorem report_layout_counterexample:
  "length (filter sensor_line (lines_of (reporte sample_lib 215 (- 1270) booted))) = 1 \<and>
   length (lines_of (reporte sample_lib 215 (- 1270) booted)) = 7 \<and>
   lines_of (reporte sample_lib 215 (- 1270) booted) ! 2 = ''S1: 21.5C | S2: ERR''"
  by (simp add: sample_lines sensor_line_def)

section \<open>Touch calibration at boot\<close>

subsection \<open>The locals of the routine\<close>

lemmas spiffs_defs = SPIFFS_exists_def SPIFFS_open_r_def SPIFFS_open_w_def readBytes_def
lemmas frame_defs = check_of_def set_check_def store_at_calData_def load_at_calData_def

lemma check_after_full_read:
  "check_of layout (set_check layout 1 fr) = 1"
  by (simp add: frame_defs split: option.splits)

lemma calData_after_set_check:
  "load_at_calData 10 (set_check layout v fr) = load_at_calData 10 fr"
  by (simp add: frame_defs split: option.splits)

lemma calData_after_store:
  "10 \<le> length bs \<Longrightarrow> load_at_calData 10 (store_at_calData bs fr) = take 10 bs"
  by (auto simp add: frame_defs intro!: nth_equalityI)

lemma check_untouched:
  "length bs \<le> 10 \<Longrightarrow>
     check_of layout (store_at_calData bs (set_check layout 0 fr)) = 0"
  by (simp add: frame_defs split: option.splits)

lemma saved_blob:
  "length (load_at_calData 14 fr) = 14"
  "take 10 (load_at_calData 14 (store_at_calData (map acquired [0..<10]) fr)) = map acquired [0..<10]"
  by (auto simp add: frame_defs take_map intro!: nth_equalityI)

subsection \<open>The two branches\<close>

lemma touch_calibrate_loads:
  assumes "fsMounted s" and "files s ''/TouchCalData'' = Some c" and "14 \<le> length c"
    and "\<not> sa"
  shows "touch_calibrate sa st lay acq s =
           println ''Datos de calibracion cargados desde SPIFFS''
             (emit (TftSetTouch (take 10 c)) s)"
  using assms
  by (simp add: touch_calibrate_def read_calData_def spiffs_defs Let_def check_after_full_read
        calData_after_set_check calData_after_store)

lemma touch_calibrate_acquires:
  assumes "\<not> fsMounted s \<or> sa \<or>
           (case files s ''/TouchCalData'' of None \<Rightarrow> True | Some c \<Rightarrow> length c \<le> 10)"
  shows "\<exists>blob. length blob = 14 \<and> take 10 blob = map acq [0..<10] \<and>
           touch_calibrate sa st lay acq s =
             do_all
               [emit TftFillScreenBlack,
                emit (TftPrintln ''Toca las esquinas indicadas para calibrar''),
                emit (TftPrintln ''(Mantente presionado hasta que desaparezca)''),
                emit TftCalibrateTouch,
                (\<lambda>s. if fsMounted s
                      then println ''Calibracion completa y guardada.''
                             (s\<lparr>files := (files s)(''/TouchCalData'' := Some blob)\<rparr>)
                      else s),
                emit TftFillScreenBlack] s"
proof -
  define fr where "fr = read_calData st lay s"
  define blob where "blob = load_at_calData 14 (store_at_calData (map acq [0..<10]) fr)"
  have go: "\<not> (check_of lay fr \<noteq> 0 \<and> \<not> sa)"
  proof (cases sa)
    case True
    then show ?thesis by simp
  next
    case False
    have "check_of lay fr = 0"
    proof (cases "fsMounted s")
      case False
      then show ?thesis
        using check_untouched [of "[]" lay "(st, 0)"]
        by (simp add: fr_def read_calData_def spiffs_defs Let_def store_at_calData_def)
    next
      case True
      show ?thesis
      proof (cases "files s ''/TouchCalData''")
        case None
        then show ?thesis
          using check_untouched [of "[]" lay "(st, 0)"]
          by (simp add: fr_def read_calData_def spiffs_defs Let_def store_at_calData_def)
      next
        case (Some c)
        with assms True \<open>\<not> sa\<close> have "length c \<le> 10" by simp
        then show ?thesis
          using Some True check_untouched [of c lay "(st, 0)"]
          by (simp add: fr_def read_calData_def spiffs_defs Let_def)
      qed
    qed
    then show ?thesis by simp
  qed
  have "touch_calibrate sa st lay acq s =
             do_all
               [emit TftFillScreenBlack,
                emit (TftPrintln ''Toca las esquinas indicadas para calibrar''),
                emit (TftPrintln ''(Mantente presionado hasta que desaparezca)''),
                emit TftCalibrateTouch,
                (\<lambda>s. if fsMounted s
                      then println ''Calibracion completa y guardada.''
                             (s\<lparr>files := (files s)(''/TouchCalData'' := Some blob)\<rparr>)
                      else s),
                emit TftFillScreenBlack] s"
    using go
    by (auto simp add: touch_calibrate_def fr_def [symmetric] blob_def Let_def
          SPIFFS_open_w_def prim_defs)
  moreover have "length blob = 14" "take 10 blob = map acq [0..<10]"
    by (simp_all add: blob_def saved_blob)
  ultimately show ?thesis by blast
qed

lemma touch_calibrate_load_effect:
  assumes "fsMounted s" and "files s ''/TouchCalData'' = Some c" and "14 \<le> length c"
    and "\<not> sa"
  shows "trace (touch_calibrate sa st lay acq s) =
           trace s @ [TftSetTouch (take 10 c),
             SerialPrint (''Datos de calibracion cargados desde SPIFFS'' @ [CHR 0x0D, CHR 0x0A])]"
    and "files (touch_calibrate sa st lay acq s) = files s"
  by (simp_all add: touch_calibrate_loads [OF assms] prim_defs)

lemma touch_calibrate_acquire_effect:
  assumes "\<not> fsMounted s \<or> sa \<or>
           (case files s ''/TouchCalData'' of None \<Rightarrow> True | Some c \<Rightarrow> length c \<le> 10)"
  shows "trace (touch_calibrate sa st lay acq s) =
           trace s @
           [TftFillScreenBlack,
            TftPrintln ''Toca las esquinas indicadas para calibrar'',
            TftPrintln ''(Mantente presionado hasta que desaparezca)'',
            TftCalibrateTouch] @
           (if fsMounted s
            then [SerialPrint (''Calibracion completa y guardada.'' @ [CHR 0x0D, CHR 0x0A])]
            else []) @
           [TftFillScreenBlack]"
    and "\<exists>blob. length blob = 14 \<and> take 10 blob = map acq [0..<10] \<and>
           files (touch_calibrate sa st lay acq s) =
             (if fsMounted s then (files s)(''/TouchCalData'' := Some blob) else files s)"
proof -
  from touch_calibrate_acquires [OF assms, of acq st lay]
  obtain blob where b: "length blob = 14" "take 10 blob = map acq [0..<10]"
    and tc: "touch_calibrate sa st lay acq s =
             do_all
               [emit TftFillScreenBlack,
                emit (TftPrintln ''Toca las esquinas indicadas para calibrar''),
                emit (TftPrintln ''(Mantente presionado hasta que desaparezca)''),
                emit TftCalibrateTouch,
                (\<lambda>s. if fsMounted s
                      then println ''Calibracion completa y guardada.''
                             (s\<lparr>files := (files s)(''/TouchCalData'' := Some blob)\<rparr>)
                      else s),
                emit TftFillScreenBlack] s"
    by blast
  show "trace (touch_calibrate sa st lay acq s) =
           trace s @
           [TftFillScreenBlack,
            TftPrintln ''Toca las esquinas indicadas para calibrar'',
            TftPrintln ''(Mantente presionado hasta que desaparezca)'',
            TftCalibrateTouch] @
           (if fsMounted s
            then [SerialPrint (''Calibracion completa y guardada.'' @ [CHR 0x0D, CHR 0x0A])]
            else []) @
           [TftFillScreenBlack]"
    by (simp add: tc prim_defs)
  have "files (touch_calibrate sa st lay acq s) =
             (if fsMounted s then (files s)(''/TouchCalData'' := Some blob) else files s)"
    by (simp add: tc prim_defs)
  with b show "\<exists>blob. length blob = 14 \<and> take 10 blob = map acq [0..<10] \<and>
           files (touch_calibrate sa st lay acq s) =
             (if fsMounted s then (files s)(''/TouchCalData'' := Some blob) else files s)"
    by blast
qed

text \<open>
  What the amended claim leaves open.  A file of 11 to 13 bytes is read beyond
  \<^verbatim>\<open>calData\<close> without \<^verbatim>\<open>check\<close> being set to 1 afterwards.  When \<^verbatim>\<open>check\<close> is the byte right
  behind \<^verbatim>\<open>calData\<close>, it then holds the eleventh byte of the file, and a file whose
  eleventh byte is not 0 is loaded; when \<^verbatim>\<open>check\<close> is kept elsewhere, the acquisition runs.
\<close>

lemma short_file_check_behind:
  assumes "fsMounted s" and "files s ''/TouchCalData'' = Some c"
    and "10 < length c" and "length c < 14" and "c ! 10 \<noteq> 0"
  shows "touch_calibrate False st (Some 0) acq s =
           println ''Datos de calibracion cargados desde SPIFFS''
             (emit (TftSetTouch (take 10 c)) s)"
  using assms
  by (simp add: touch_calibrate_def read_calData_def spiffs_defs Let_def
        check_of_def store_at_calData_def calData_after_store [unfolded store_at_calData_def])

lemma short_file_check_elsewhere:
  assumes "fsMounted s" and "files s ''/TouchCalData'' = Some c"
    and "10 < length c" and "length c < 14"
  shows "TftCalibrateTouch \<in> set (trace (touch_calibrate False st None acq s))"
  using assms
  by (simp add: touch_calibrate_def read_calData_def spiffs_defs Let_def frame_defs prim_defs
        SPIFFS_open_w_def)

subsection \<open>The routine inside setup\<close>

lemma setup_fw_around_calibration:
  "\<exists>s0 rest.
     fsMounted s0 = spiffs_begin_ok E \<and> files s0 = stored \<and>
     TftCalibrateTouch \<notin> set (trace s0) \<and> (\<forall>b. TftSetTouch b \<notin> set (trace s0)) \<and>
     TftCalibrateTouch \<notin> set rest \<and> (\<forall>b. TftSetTouch b \<notin> set rest) \<and>
     trace (setup_fw L E (power_on mhz stored)) =
       trace (touch_calibrate (serial_available E) (calData_stack E) (check_layout E)
                (calibration_acquired E) s0) @ rest \<and>
     files (setup_fw L E (power_on mhz stored)) =
       files (touch_calibrate (serial_available E) (calData_stack E) (check_layout E)
                (calibration_acquired E) s0)"
proof -
  define s0 where "s0 = do_all
       [emit (SerialBegin 115200),
        setCpuFrequencyMhz 240,
        pinMode_OUTPUT PIN_RELE1,
        pinMode_OUTPUT PIN_RELE2,
        digitalWrite PIN_RELE1 LOW,
        digitalWrite PIN_RELE2 HIGH,
        emit SensorsBegin,
        (\<lambda>s. s\<lparr>fsMounted := spiffs_begin_ok E\<rparr>),
        (\<lambda>s. if \<not> spiffs_begin_ok E then println ''Error SPIFFS'' s else s),
        emit TftInit,
        emit (TftSetRotation 0),
        emit TftFillScreenBlack,
        emit BtRegisterCallback] (power_on mhz stored)"
  define s1 where "s1 = touch_calibrate (serial_available E) (calData_stack E) (check_layout E)
                (calibration_acquired E) s0"
  define rest where "rest =
     [DrawInterfazBase (btActivo s1), DrawBotonSistema (sistemaEstado s1), DrawBotonBL,
      DrawVisualReles (estadoRele s1),
      DrawTemperaturas
       (if setup_t1 E = DEVICE_DISCONNECTED_C L then ''--.- C'' else String1 L (setup_t1 E) @ '' C'')
       (if setup_t2 E = DEVICE_DISCONNECTED_C L then ''--.- C'' else String1 L (setup_t2 E) @ '' C''),
      PinModeOutput PIN_BL,
      SerialPrint (''--- Sistema Iniciado y Pantalla ON ---'' @ [CHR 0x0D, CHR 0x0A])]"
  have split: "setup_fw L E (power_on mhz stored) =
     do_all
       [dibujarInterfazBase,
        (\<lambda>s. dibujarBotonSistema (sistemaEstado s) s),
        dibujarBotonBL,
        actualizarVisualReles,
        actualizarTemperaturas L (setup_t1 E) (setup_t2 E),
        pinMode_OUTPUT PIN_BL,
        digitalWrite PIN_BL LOW,
        (\<lambda>s. s\<lparr>pantallaEncendida := True\<rparr>),
        println ''--- Sistema Iniciado y Pantalla ON ---''] s1"
    by (simp add: setup_fw_def s1_def s0_def)
  have "fsMounted s0 = spiffs_begin_ok E" "files s0 = stored"
    "TftCalibrateTouch \<notin> set (trace s0)" "\<forall>b. TftSetTouch b \<notin> set (trace s0)"
    by (simp_all add: s0_def power_on_def prim_defs)
  moreover have "TftCalibrateTouch \<notin> set rest" "\<forall>b. TftSetTouch b \<notin> set rest"
    by (simp_all add: rest_def)
  moreover have "trace (setup_fw L E (power_on mhz stored)) = trace s1 @ rest"
    "files (setup_fw L E (power_on mhz stored)) = files s1"
    by (simp_all add: split rest_def prim_defs draw_defs)
  ultimately show ?thesis
    unfolding s1_def by blast
qed

lemma boot_loads:
  assumes "spiffs_begin_ok E" and "stored ''/TouchCalData'' = Some c" and "14 \<le> length c"
    and "\<not> serial_available E"
  shows "TftSetTouch (take 10 c) \<in> set (trace (setup_fw L E (power_on mhz stored)))"
    and "TftCalibrateTouch \<notin> set (trace (setup_fw L E (power_on mhz stored)))"
    and "files (setup_fw L E (power_on mhz stored)) = stored"
proof -
  from setup_fw_around_calibration [of E stored L mhz]
  obtain s0 rest where s0: "fsMounted s0 = spiffs_begin_ok E" "files s0 = stored"
      "TftCalibrateTouch \<notin> set (trace s0)" "TftCalibrateTouch \<notin> set rest"
    and tr: "trace (setup_fw L E (power_on mhz stored)) =
       trace (touch_calibrate (serial_available E) (calData_stack E) (check_layout E)
                (calibration_acquired E) s0) @ rest"
    and fi: "files (setup_fw L E (power_on mhz stored)) =
       files (touch_calibrate (serial_available E) (calData_stack E) (check_layout E)
                (calibration_acquired E) s0)"
    by blast
  have m: "fsMounted s0" "files s0 ''/TouchCalData'' = Some c"
    using assms s0 by simp_all
  note eff = touch_calibrate_load_effect [OF m assms(3) assms(4)]
  show "TftSetTouch (take 10 c) \<in> set (trace (setup_fw L E (power_on mhz stored)))"
    by (simp add: tr eff)
  show "TftCalibrateTouch \<notin> set (trace (setup_fw L E (power_on mhz stored)))"
    using s0 by (simp add: tr eff)
  show "files (setup_fw L E (power_on mhz stored)) = stored"
    using s0 by (simp add: fi eff)
qed

lemma boot_acquires:
  assumes "\<not> spiffs_begin_ok E \<or> serial_available E \<or>
           (case stored ''/TouchCalData'' of None \<Rightarrow> True | Some c \<Rightarrow> length c \<le> 10)"
  shows "TftCalibrateTouch \<in> set (trace (setup_fw L E (power_on mhz stored)))"
    and "TftSetTouch b \<notin> set (trace (setup_fw L E (power_on mhz stored)))"
    and "\<exists>blob. length blob = 14 \<and>
           take 10 blob = map (calibration_acquired E) [0..<10] \<and>
           files (setup_fw L E (power_on mhz stored)) =
             (if spiffs_begin_ok E then stored(''/TouchCalData'' := Some blob) else stored)"
proof -
  from setup_fw_around_calibration [of E stored L mhz]
  obtain s0 rest where s0: "fsMounted s0 = spiffs_begin_ok E" "files s0 = stored"
      "\<forall>b. TftSetTouch b \<notin> set (trace s0)" "\<forall>b. TftSetTouch b \<notin> set rest"
    and tr: "trace (setup_fw L E (power_on mhz stored)) =
       trace (touch_calibrate (serial_available E) (calData_stack E) (check_layout E)
                (calibration_acquired E) s0) @ rest"
    and fi: "files (setup_fw L E (power_on mhz stored)) =
       files (touch_calibrate (serial_available E) (calData_stack E) (check_layout E)
                (calibration_acquired E) s0)"
    by blast
  have c: "\<not> fsMounted s0 \<or> serial_available E \<or>
           (case files s0 ''/TouchCalData'' of None \<Rightarrow> True | Some c \<Rightarrow> length c \<le> 10)"
    using assms s0 by simp
  note eff = touch_calibrate_acquire_effect [OF c]
  show "TftCalibrateTouch \<in> set (trace (setup_fw L E (power_on mhz stored)))"
    by (simp add: tr eff(1))
  show "TftSetTouch b \<notin> set (trace (setup_fw L E (power_on mhz stored)))"
    using s0 by (simp add: tr eff(1))
  show "\<exists>blob. length blob = 14 \<and>
           take 10 blob = map (calibration_acquired E) [0..<10] \<and>
           files (setup_fw L E (power_on mhz stored)) =
             (if spiffs_begin_ok E then stored(''/TouchCalData'' := Some blob) else stored)"
    using eff(2) [of "calibration_acquired E" "calData_stack E" "check_layout E"] s0
    by (auto simp add: fi)
qed

lemma sample_env_fields:
  "spiffs_begin_ok sample_setup_env" "\<not> serial_available sample_setup_env"
  "calibration_acquired sample_setup_env = sample_calibration"
  "calData_stack sample_setup_env = (\<lambda>i. 0)" "check_layout sample_setup_env = Some 0"
  by (simp_all add: sample_setup_env_def)

lemma sample_calibration_bytes:
  "map sample_calibration [0..<10] = [1, 2, 3, 4, 5, 6, 7, 8, 9, 10]"
  by (simp add: upt_rec) (simp add: sample_calibration_def)

lemma sample_blob_length: "length sample_blob = 14"
  by (simp add: sample_blob_def)

text \<open>
  Claim C6, as amended.  \<^verbatim>\<open>setup\<close> loads the stored calibration, the five values in
  the first 10 bytes of the file, and does not run the interactive acquisition, when the
  store is mounted, the file holds at least 14 bytes and no serial input is pending.
  It runs the interactive acquisition and loads nothing when the store is not mounted,
  or serial input is pending, or there is no file, or the file holds at most 10 bytes;
  then, when the store is mounted, it saves a blob of 14 bytes whose first 10 bytes are
  the five values acquired, and when the store is not mounted it leaves the store as it
  was.  Nothing is stated for a file of 11 to 13 bytes with no serial input pending, and
  nothing about the last 4 bytes of the blob saved: both depend on what lies behind
  \<^verbatim>\<open>calData\<close>.
\<close>

theorem boot_calibration:
  "(spiffs_begin_ok E \<and> stored ''/TouchCalData'' = Some c \<and> 14 \<le> length c \<and>
      \<not> serial_available E \<longrightarrow>
      TftSetTouch (take 10 c) \<in> set (trace (setup_fw L E (power_on mhz stored))) \<and>
      TftCalibrateTouch \<notin> set (trace (setup_fw L E (power_on mhz stored))) \<and>
      files (setup_fw L E (power_on mhz stored)) = stored) \<and>
   (\<not> spiffs_begin_ok E \<or> serial_available E \<or>
      (case stored ''/TouchCalData'' of None \<Rightarrow> True | Some c \<Rightarrow> length c \<le> 10) \<longrightarrow>
      TftCalibrateTouch \<in> set (trace (setup_fw L E (power_on mhz stored))) \<and>
      (\<forall>b. TftSetTouch b \<notin> set (trace (setup_fw L E (power_on mhz stored)))) \<and>
      (\<exists>blob. length blob = 14 \<and>
         take 10 blob = map (calibration_acquired E) [0..<10] \<and>
         files (setup_fw L E (power_on mhz stored)) =
           (if spiffs_begin_ok E then stored(''/TouchCalData'' := Some blob) else stored)))"
  using boot_loads [where E = E and stored = stored and c = c and L = L and mhz = mhz]
    boot_acquires [where E = E and stored = stored and L = L and mhz = mhz]
  by blast

theorem boot_calibration_witness:
  "(case (\<lambda>p. None) ''/TouchCalData'' of None \<Rightarrow> True | Some (c :: byte list) \<Rightarrow> length c \<le> 10) \<and>
   TftCalibrateTouch \<in> set (trace booted) \<and>
   (\<exists>blob. files booted = [''/TouchCalData'' \<mapsto> blob] \<and> length blob = 14 \<and>
      take 10 blob = [1, 2, 3, 4, 5, 6, 7, 8, 9, 10]) \<and>
   spiffs_begin_ok sample_setup_env \<and> \<not> serial_available sample_setup_env \<and>
   TftSetTouch [1, 2, 3, 4, 5, 6, 7, 8, 9, 10] \<in> set (trace (setup_fw sample_lib sample_setup_env
      (power_on 240 (files booted)))) \<and>
   TftCalibrateTouch \<notin> set (trace (setup_fw sample_lib sample_setup_env
      (power_on 240 (files booted)))) \<and>
   files (setup_fw sample_lib sample_setup_env (power_on 240 (files booted))) = files booted"
proof -
  note e = sample_env_fields
  have first: "TftCalibrateTouch \<in> set (trace booted)"
    "\<exists>blob. files booted = [''/TouchCalData'' \<mapsto> blob] \<and> length blob = 14 \<and>
      take 10 blob = [1, 2, 3, 4, 5, 6, 7, 8, 9, 10]"
    using boot_calibration [where E = sample_setup_env and stored = "\<lambda>p. None"
        and L = sample_lib and mhz = 240] e
    by (auto simp add: booted_def sample_calibration_bytes)
  then obtain blob where blob: "files booted = [''/TouchCalData'' \<mapsto> blob]"
    "length blob = 14" "take 10 blob = [1, 2, 3, 4, 5, 6, 7, 8, 9, 10]"
    by blast
  show ?thesis
    using first e blob
      boot_calibration [where E = sample_setup_env and stored = "files booted"
        and L = sample_lib and mhz = 240 and c = blob]
    by simp
qed

text \<open>
  The claim as stated fails in three ways.  With a 14-byte file stored and serial input
  pending, the acquisition runs all the same.  With a 15-byte file stored, a file of the
  wrong size, the acquisition is skipped.  With the store not mounted and nothing stored,
  the acquisition runs and its result is not saved.
\<close>

theorem boot_calibration_counterexample:
  "length sample_blob = 14 \<and>
   TftCalibrateTouch \<in> set (trace (setup_fw sample_lib (sample_setup_env\<lparr>serial_available := True\<rparr>)
      (power_on 240 [''/TouchCalData'' \<mapsto> sample_blob]))) \<and>
   length (sample_blob @ [15]) = 15 \<and>
   TftCalibrateTouch \<notin> set (trace (setup_fw sample_lib sample_setup_env
      (power_on 240 [''/TouchCalData'' \<mapsto> sample_blob @ [15]]))) \<and>
   TftCalibrateTouch \<in> set (trace (setup_fw sample_lib (sample_setup_env\<lparr>spiffs_begin_ok := False\<rparr>)
      (power_on 240 (\<lambda>p. None)))) \<and>
   files (setup_fw sample_lib (sample_setup_env\<lparr>spiffs_begin_ok := False\<rparr>)
      (power_on 240 (\<lambda>p. None))) ''/TouchCalData'' = None"
proof -
  have a: "TftCalibrateTouch \<in> set (trace (setup_fw sample_lib (sample_setup_env\<lparr>serial_available := True\<rparr>)
      (power_on 240 [''/TouchCalData'' \<mapsto> sample_blob])))"
    by (rule boot_acquires) simp
  have b: "TftCalibrateTouch \<notin> set (trace (setup_fw sample_lib sample_setup_env
      (power_on 240 [''/TouchCalData'' \<mapsto> sample_blob @ [15]])))"
    by (rule boot_loads [where c = "sample_blob @ [15]"])
      (simp_all add: sample_env_fields sample_blob_length)
  have c: "TftCalibrateTouch \<in> set (trace (setup_fw sample_lib (sample_setup_env\<lparr>spiffs_begin_ok := False\<rparr>)
      (power_on 240 (\<lambda>p. None))))"
    by (rule boot_acquires) simp
  have d: "files (setup_fw sample_lib (sample_setup_env\<lparr>spiffs_begin_ok := False\<rparr>)
      (power_on 240 (\<lambda>p. None))) ''/TouchCalData'' = None"
    using boot_acquires(3) [where E = "sample_setup_env\<lparr>spiffs_begin_ok := False\<rparr>"
        and stored = "\<lambda>p. None" and L = sample_lib and mhz = 240]
    by auto
  show ?thesis using a b c d by (simp add: sample_blob_length)
qed

end
